theory Spec2Isabelle
  imports Complex_Main
begin

section \<open>Data model of App.js\<close>

text \<open>
  The component \<open>App\<close> of \<open>src/App.js\<close> keeps five state hooks and talks to four
  external collaborators: the permission prompt and the position provider
  (\<open>expo-location\<close>), the Wi-Fi provider (\<open>react-native-wifi-reborn\<close>), the remote
  collection \<open>networkDetails\<close> (Firestore, through \<open>addDoc\<close> and \<open>getDocs\<close>) and the
  toast/console pair used for reporting. Every \<open>await\<close> of the source is answered by
  a scripted response of the environment; every call that leaves the component is
  logged as an event, so that "was never invoked" is a statement about a trace.
\<close>

type_synonym js_error = string

text \<open>JavaScript values as far as the written document needs them.\<close>

datatype jsval = Null | Str string | Num real | Obj "(string \<times> jsval) list"

text \<open>\<open>useState({})\<close>: the only key ever put into \<open>wifiDetails\<close> is \<open>ssid\<close>;
  \<open>None\<close> is the key being undefined.\<close>

record wifi_details =
  ssid :: "string option"

text \<open>The object delivered by \<open>Location.getCurrentPositionAsync\<close>. The source reads
  \<open>coords.latitude\<close> and \<open>coords.longitude\<close> only; whatever else the provider puts
  into the object (the time of the fix, for one) lives in the extension part of the
  record.\<close>

record coords =
  latitude :: real
  longitude :: real

record location =
  coords :: coords

record wifi_entry =
  SSID :: string
  level :: int

record 'l app_state =
  wifiDetails :: wifi_details
  signalStrength :: "int option"
  location :: "'l location_scheme option"
  savedData :: "jsval list"
  availableNetworks :: "wifi_entry list"

text \<open>The values the \<open>useState\<close> calls give the hooks when the component mounts.\<close>

definition initial_state :: "'l app_state" where
  "initial_state =
     \<lparr>wifiDetails = \<lparr>ssid = None\<rparr>, signalStrength = None, location = None,
      savedData = [], availableNetworks = []\<rparr>"

datatype call =
    RequestForegroundPermissions
  | GetCurrentWifiSSID
  | ConnectionStatus
  | GetCurrentSignalStrength
  | GetCurrentPosition
  | LoadWifiList
  | GetDocs string
  | AddDoc string jsval

datatype event =
    Call call
  | ToastShow string
  | ConsoleError string js_error
  | UnhandledRejection js_error

text \<open>What the collaborators answer while one handler runs: \<open>Inl e\<close> is a rejected
  promise. \<open>date_now\<close> is the reading of \<open>new Date()\<close> in milliseconds and
  \<open>toISOString\<close> the built-in formatter, both taken as given.

  \<open>Toast.show\<close> is an ordinary call and may throw: \<open>toast_response\<close> is \<open>Some e\<close> when
  it throws \<open>e\<close> and \<open>None\<close> when it returns. A \<open>ToastShow\<close> event logs that the call
  was made. A throw skips the statements that follow the call and goes to the
  enclosing \<open>catch\<close> or out of the handler. Where the toast is the handler's last
  statement the throw only turns the handler's promise into a rejected one: no hook
  is set and no call is made after it, so state and trace are the same either way.
  It decides something in two places, where a call follows the toast: the success
  toast of \<open>saveData\<close>, which stands before \<open>fetchSavedData()\<close> inside the \<open>try\<close>, and
  the toast in the \<open>catch\<close> of \<open>fetchNetworkInfo\<close>, which stands before
  \<open>fetchLocation()\<close>.\<close>

record 'l env =
  permission_response :: "js_error + string"
  ssid_response :: "js_error + string"
  connection_response :: "js_error + bool"
  signal_response :: "js_error + int"
  position_response :: "js_error + 'l location_scheme"
  wifi_list_response :: "js_error + wifi_entry list"
  addDoc_response :: "js_error option"
  getDocs_response :: "js_error option"
  toast_response :: "js_error option"
  date_now :: int
  toISOString :: "int \<Rightarrow> string"

subsection \<open>The remote collection\<close>

type_synonym store = "jsval list"

text \<open>Modelled from the spec: the collection behind \<open>addDoc\<close> and \<open>getDocs\<close> is the
  ObservationStore of the specification, which is not repository code. \<open>create\<close>
  either fails and leaves the collection alone or appends the document; \<open>listAll\<close>
  either fails or returns every document held (the order is the store's business;
  the theorems below only speak of membership).\<close>

definition store_create :: "js_error option \<Rightarrow> jsval \<Rightarrow> store \<Rightarrow> js_error + store" where
  "store_create resp d st = (case resp of Some e \<Rightarrow> Inl e | None \<Rightarrow> Inr (st @ [d]))"

definition store_listAll :: "js_error option \<Rightarrow> store \<Rightarrow> js_error + jsval list" where
  "store_listAll resp st = (case resp of Some e \<Rightarrow> Inl e | None \<Rightarrow> Inr st)"

subsection \<open>JavaScript truthiness of the three collected fields\<close>

definition truthy_string :: "string option \<Rightarrow> bool" where
  "truthy_string v = (case v of None \<Rightarrow> False | Some t \<Rightarrow> t \<noteq> [])"

definition truthy_number :: "int option \<Rightarrow> bool" where
  "truthy_number v = (case v of None \<Rightarrow> False | Some n \<Rightarrow> n \<noteq> 0)"

definition truthy_object :: "'a option \<Rightarrow> bool" where
  "truthy_object v = (case v of None \<Rightarrow> False | Some _ \<Rightarrow> True)"

section \<open>The handlers\<close>

definition fetchLocation :: "'l env \<Rightarrow> 'l app_state \<Rightarrow> 'l app_state \<times> event list" where
  "fetchLocation env s =
     (case position_response env of
        Inr loc \<Rightarrow> (s\<lparr>location := Some loc\<rparr>, [Call GetCurrentPosition])
      | Inl e \<Rightarrow>
          (s, [Call GetCurrentPosition,
               ConsoleError ''Error fetching location:'' e,
               ToastShow ''Error fetching location'']))"

text \<open>The \<open>try\<close> block of \<open>fetchNetworkInfo\<close>: the state reached, the calls made and
  the exception that left the block, if any. A state update made before the throw
  stays.\<close>

definition fetchNetworkInfo_try ::
  "'l env \<Rightarrow> 'l app_state \<Rightarrow> 'l app_state \<times> event list \<times> js_error option" where
  "fetchNetworkInfo_try env s =
     (case ssid_response env of
        Inl e \<Rightarrow> (s, [Call GetCurrentWifiSSID], Some e)
      | Inr n \<Rightarrow>
          (let s1 = s\<lparr>wifiDetails := (wifiDetails s)\<lparr>ssid := Some n\<rparr>\<rparr> in
           case connection_response env of
             Inl e \<Rightarrow> (s1, [Call GetCurrentWifiSSID, Call ConnectionStatus], Some e)
           | Inr isConnected \<Rightarrow>
               if isConnected then
                 (case signal_response env of
                    Inl e \<Rightarrow>
                      (s1, [Call GetCurrentWifiSSID, Call ConnectionStatus,
                            Call GetCurrentSignalStrength], Some e)
                  | Inr lvl \<Rightarrow>
                      (s1\<lparr>signalStrength := Some lvl\<rparr>,
                       [Call GetCurrentWifiSSID, Call ConnectionStatus,
                        Call GetCurrentSignalStrength], None))
               else (s1, [Call GetCurrentWifiSSID, Call ConnectionStatus], None)))"

definition network_catch :: "js_error option \<Rightarrow> event list" where
  "network_catch err =
     (case err of
        None \<Rightarrow> []
      | Some e \<Rightarrow> [ConsoleError ''Error fetching network info:'' e,
                   ToastShow ''Error fetching network info''])"

text \<open>\<open>fetchLocation()\<close> is the statement after the \<open>try\<close>/\<open>catch\<close>: it is reached when
  the \<open>try\<close> block ends normally or the \<open>catch\<close> does, and not when the toast of the
  \<open>catch\<close> throws.\<close>

definition fetchNetworkInfo :: "'l env \<Rightarrow> 'l app_state \<Rightarrow> 'l app_state \<times> event list" where
  "fetchNetworkInfo env s =
     (let (s1, t1, err) = fetchNetworkInfo_try env s
      in if err \<noteq> None \<and> toast_response env \<noteq> None
         then (s1, t1 @ network_catch err)
         else (let (s2, t2) = fetchLocation env s1
               in (s2, t1 @ network_catch err @ t2)))"

text \<open>The \<open>await\<close> of the permission request is outside any \<open>try\<close>: a rejection
  ends the handler as an unhandled rejection.\<close>

definition requestPermissions :: "'l env \<Rightarrow> 'l app_state \<Rightarrow> 'l app_state \<times> event list" where
  "requestPermissions env s =
     (case permission_response env of
        Inl e \<Rightarrow> (s, [Call RequestForegroundPermissions, UnhandledRejection e])
      | Inr status \<Rightarrow>
          if status \<noteq> ''granted'' then
            (s, [Call RequestForegroundPermissions,
                 ToastShow ''Location permission is required to collect data.''])
          else
            (let (s1, t) = fetchNetworkInfo env s
             in (s1, Call RequestForegroundPermissions # t)))"

definition fetchSavedData ::
  "'l env \<Rightarrow> store \<Rightarrow> 'l app_state \<Rightarrow> 'l app_state \<times> event list" where
  "fetchSavedData env st s =
     (case store_listAll (getDocs_response env) st of
        Inr docs \<Rightarrow> (s\<lparr>savedData := docs\<rparr>, [Call (GetDocs ''networkDetails'')])
      | Inl e \<Rightarrow>
          (s, [Call (GetDocs ''networkDetails''),
               ConsoleError ''Error fetching saved data:'' e,
               ToastShow ''Error fetching saved data'']))"

definition fetchAvailableNetworks ::
  "'l env \<Rightarrow> 'l app_state \<Rightarrow> 'l app_state \<times> event list" where
  "fetchAvailableNetworks env s =
     (case wifi_list_response env of
        Inr networks \<Rightarrow> (s\<lparr>availableNetworks := networks\<rparr>, [Call LoadWifiList])
      | Inl e \<Rightarrow>
          (s, [Call LoadWifiList,
               ConsoleError ''Error fetching available networks:'' e,
               ToastShow ''Error fetching available networks'']))"

subsection \<open>saveData\<close>

definition wifiDetails_json :: "wifi_details \<Rightarrow> jsval" where
  "wifiDetails_json w =
     Obj (case ssid w of None \<Rightarrow> [] | Some n \<Rightarrow> [(''ssid'', Str n)])"

definition number_json :: "int option \<Rightarrow> jsval" where
  "number_json v = (case v of None \<Rightarrow> Null | Some n \<Rightarrow> Num (real_of_int n))"

text \<open>The object literal \<open>data\<close> of \<open>saveData\<close>, keys in the order written.\<close>

definition save_record ::
  "wifi_details \<Rightarrow> int option \<Rightarrow> 'l location_scheme \<Rightarrow> string \<Rightarrow> jsval" where
  "save_record w sig loc stamp =
     Obj [(''wifiDetails'', wifiDetails_json w),
          (''signalStrength'', number_json sig),
          (''location'',
             Obj [(''latitude'', Num (latitude (coords loc))),
                  (''longitude'', Num (longitude (coords loc)))]),
          (''timestamp'', Str stamp)]"

text \<open>The guard is the source's \<open>!wifiDetails.ssid || !signalStrength || !location\<close>.
  Reading \<open>location.coords\<close> of \<open>null\<close> would throw before the \<open>try\<close>; the guard
  makes that branch dead, and it is kept as what JavaScript would do.

  Inside the \<open>try\<close>, the success toast stands between \<open>await addDoc\<close> and
  \<open>fetchSavedData()\<close>. When it throws, the document is already in the collection,
  control goes to the \<open>catch\<close> (which logs the toast's exception and toasts the
  error message) and the refresh is not started.\<close>

definition saveData ::
  "'l env \<Rightarrow> store \<Rightarrow> 'l app_state \<Rightarrow> 'l app_state \<times> store \<times> event list" where
  "saveData env st s =
     (if \<not> truthy_string (ssid (wifiDetails s)) \<or> \<not> truthy_number (signalStrength s)
          \<or> \<not> truthy_object (location s)
      then (s, st,
            [ToastShow ''Please ensure all data (Wi-Fi, Signal Strength, Location) is available.''])
      else
        (case location s of
           None \<Rightarrow> (s, st, [UnhandledRejection ''TypeError''])
         | Some loc \<Rightarrow>
             (let data = save_record (wifiDetails s) (signalStrength s) loc
                           (toISOString env (date_now env))
              in case store_create (addDoc_response env) data st of
                   Inr st1 \<Rightarrow>
                     (case toast_response env of
                        None \<Rightarrow>
                          (let (s1, t) = fetchSavedData env st1 s
                           in (s1, st1,
                               [Call (AddDoc ''networkDetails'' data),
                                ToastShow ''Data saved successfully!''] @ t))
                      | Some x \<Rightarrow>
                          (s, st1,
                           [Call (AddDoc ''networkDetails'' data),
                            ToastShow ''Data saved successfully!'',
                            ConsoleError ''Error saving data to Firebase:'' x,
                            ToastShow ''Error saving data to Firebase'']))
                 | Inl e \<Rightarrow>
                     (s, st,
                      [Call (AddDoc ''networkDetails'' data),
                       ConsoleError ''Error saving data to Firebase:'' e,
                       ToastShow ''Error saving data to Firebase'']))))"

subsection \<open>The mount effect\<close>

text \<open>
  \<open>useEffect(..., [])\<close> starts three chains without awaiting any of them:
  \<open>requestPermissions\<close> (which goes on into \<open>fetchNetworkInfo\<close> and \<open>fetchLocation\<close>),
  \<open>fetchSavedData\<close> and \<open>fetchAvailableNetworks\<close>. They run interleaved and write
  disjoint hooks, so the state once all three have settled is their composition in
  any order (\<open>mount_chains_commute\<close> below); the calls are reported as one trace per
  chain, with no order claimed between chains.
\<close>

record mount_trace =
  permission_chain :: "event list"
  saved_chain :: "event list"
  networks_chain :: "event list"

definition useEffect_mount ::
  "'l env \<Rightarrow> store \<Rightarrow> 'l app_state \<Rightarrow> 'l app_state \<times> mount_trace" where
  "useEffect_mount env st s =
     (let (s1, t1) = requestPermissions env s;
          (s2, t2) = fetchSavedData env st s1;
          (s3, t3) = fetchAvailableNetworks env s2
      in (s3, \<lparr>permission_chain = t1, saved_chain = t2, networks_chain = t3\<rparr>))"

definition mount_events :: "mount_trace \<Rightarrow> event set" where
  "mount_events m =
     set (permission_chain m) \<union> set (saved_chain m) \<union> set (networks_chain m)"

text \<open>Mounting the component: the hooks take their \<open>useState\<close> defaults and the
  effect runs once. This is the only place the collection pipeline is started.\<close>

definition App_mount :: "'l env \<Rightarrow> store \<Rightarrow> 'l app_state \<times> mount_trace" where
  "App_mount env st = useEffect_mount env st initial_state"

text \<open>The calls that query the device for one of the collected fields.\<close>

definition field_query :: "call \<Rightarrow> bool" where
  "field_query c =
     (case c of
        GetCurrentWifiSSID \<Rightarrow> True
      | ConnectionStatus \<Rightarrow> True
      | GetCurrentSignalStrength \<Rightarrow> True
      | GetCurrentPosition \<Rightarrow> True
      | _ \<Rightarrow> False)"

text \<open>The documents handed to \<open>addDoc\<close> in a trace.\<close>

fun written :: "event \<Rightarrow> jsval list" where
  "written (Call (AddDoc c d)) = [d]"
| "written _ = []"

definition writes :: "event list \<Rightarrow> jsval list" where
  "writes t = concat (map written t)"

text \<open>Property access and \<open>Object.keys\<close> on a written document.\<close>

fun field :: "jsval \<Rightarrow> string \<Rightarrow> jsval option" where
  "field (Obj kvs) k = map_of kvs k"
| "field _ k = None"

fun object_keys :: "jsval \<Rightarrow> string list" where
  "object_keys (Obj kvs) = map fst kvs"
| "object_keys _ = []"

definition incomplete_toast :: "event list" where
  "incomplete_toast =
     [ToastShow ''Please ensure all data (Wi-Fi, Signal Strength, Location) is available.'']"

subsection \<open>Concrete inputs\<close>

definition demo_location :: location where
  "demo_location = \<lparr>coords = \<lparr>latitude = 37, longitude = - 122\<rparr>\<rparr>"

definition demo_state :: "unit app_state" where
  "demo_state =
     \<lparr>wifiDetails = \<lparr>ssid = Some ''NET1''\<rparr>, signalStrength = Some (- 54),
      location = Some demo_location, savedData = [], availableNetworks = []\<rparr>"

definition demo_env :: "unit env" where
  "demo_env =
     \<lparr>permission_response = Inr ''granted'', ssid_response = Inr ''NET1'',
      connection_response = Inr True, signal_response = Inr (- 54),
      position_response = Inr demo_location, wifi_list_response = Inr [],
      addDoc_response = None, getDocs_response = None, toast_response = None,
      date_now = 1700000000000,
      toISOString = (\<lambda>_. ''2023-11-14T22:13:20.000Z'')\<rparr>"

definition demo_record :: jsval where
  "demo_record =
     Obj [(''wifiDetails'', Obj [(''ssid'', Str ''NET1'')]),
          (''signalStrength'', Num (- 54)),
          (''location'', Obj [(''latitude'', Num 37), (''longitude'', Num (- 122))]),
          (''timestamp'', Str ''2023-11-14T22:13:20.000Z'')]"

section \<open>Properties\<close>

subsection \<open>Auxiliary facts\<close>

lemma truthy_string_iff: "truthy_string v \<longleftrightarrow> (\<exists>t. v = Some t \<and> t \<noteq> [])"
  by (cases v) (simp_all add: truthy_string_def)

lemma truthy_number_iff: "truthy_number v \<longleftrightarrow> (\<exists>n. v = Some n \<and> n \<noteq> 0)"
  by (cases v) (simp_all add: truthy_number_def)

lemma truthy_object_iff: "truthy_object v \<longleftrightarrow> (\<exists>x. v = Some x)"
  by (cases v) (simp_all add: truthy_object_def)

lemma writes_Nil [simp]: "writes [] = []"
  by (simp add: writes_def)

lemma writes_Cons [simp]: "writes (ev # t) = written ev @ writes t"
  by (simp add: writes_def)

lemma writes_append [simp]: "writes (t @ u) = writes t @ writes u"
  by (simp add: writes_def)

lemma fetchSavedData_ok:
  "getDocs_response env = None \<Longrightarrow>
   fetchSavedData env st s = (s\<lparr>savedData := st\<rparr>, [Call (GetDocs ''networkDetails'')])"
  by (simp add: fetchSavedData_def store_listAll_def)

lemma fetchSavedData_fail:
  "getDocs_response env = Some e \<Longrightarrow>
   fetchSavedData env st s =
     (s, [Call (GetDocs ''networkDetails''),
          ConsoleError ''Error fetching saved data:'' e,
          ToastShow ''Error fetching saved data''])"
  by (simp add: fetchSavedData_def store_listAll_def)

lemma fetchSavedData_writes [simp]: "writes (snd (fetchSavedData env st s)) = []"
  by (cases "getDocs_response env") (simp_all add: fetchSavedData_ok fetchSavedData_fail)

lemma fetchSavedData_fields:
  "wifiDetails (fst (fetchSavedData env st s)) = wifiDetails s"
  "signalStrength (fst (fetchSavedData env st s)) = signalStrength s"
  "location (fst (fetchSavedData env st s)) = location s"
  "availableNetworks (fst (fetchSavedData env st s)) = availableNetworks s"
  by (cases "getDocs_response env"; simp add: fetchSavedData_ok fetchSavedData_fail)+

text \<open>The three ways \<open>saveData\<close> can go.\<close>

lemma saveData_rejected:
  "\<not> (truthy_string (ssid (wifiDetails s)) \<and> truthy_number (signalStrength s)
        \<and> truthy_object (location s)) \<Longrightarrow>
   saveData env st s = (s, st, incomplete_toast)"
  by (auto simp: saveData_def incomplete_toast_def)

lemma saveData_write_failed:
  assumes "truthy_string (ssid (wifiDetails s))" "truthy_number (signalStrength s)"
    and "location s = Some loc" "addDoc_response env = Some e"
  shows "saveData env st s =
     (s, st,
      [Call (AddDoc ''networkDetails''
               (save_record (wifiDetails s) (signalStrength s) loc
                  (toISOString env (date_now env)))),
       ConsoleError ''Error saving data to Firebase:'' e,
       ToastShow ''Error saving data to Firebase''])"
  using assms by (simp add: saveData_def truthy_object_def store_create_def)

lemma saveData_toast_threw:
  assumes "truthy_string (ssid (wifiDetails s))" "truthy_number (signalStrength s)"
    and "location s = Some loc" "addDoc_response env = None"
    and "d = save_record (wifiDetails s) (signalStrength s) loc
               (toISOString env (date_now env))"
    and "toast_response env = Some x"
  shows "saveData env st s =
     (s, st @ [d],
      [Call (AddDoc ''networkDetails'' d), ToastShow ''Data saved successfully!'',
       ConsoleError ''Error saving data to Firebase:'' x,
       ToastShow ''Error saving data to Firebase''])"
  using assms
  by (simp add: saveData_def truthy_object_def store_create_def Let_def)

lemma saveData_written:
  assumes "truthy_string (ssid (wifiDetails s))" "truthy_number (signalStrength s)"
    and "location s = Some loc" "addDoc_response env = None"
    and "d = save_record (wifiDetails s) (signalStrength s) loc
               (toISOString env (date_now env))"
    and "toast_response env = None"
  shows "saveData env st s =
     (fst (fetchSavedData env (st @ [d]) s), st @ [d],
      [Call (AddDoc ''networkDetails'' d), ToastShow ''Data saved successfully!'']
        @ snd (fetchSavedData env (st @ [d]) s))"
  using assms
  by (simp add: saveData_def truthy_object_def store_create_def case_prod_beta Let_def)

lemma save_record_truthy:
  assumes "truthy_string (ssid (wifiDetails s))" "truthy_number (signalStrength s)"
  shows "\<exists>n l. ssid (wifiDetails s) = Some n \<and> n \<noteq> [] \<and> signalStrength s = Some l \<and> l \<noteq> 0
     \<and> save_record (wifiDetails s) (signalStrength s) loc stamp =
         Obj [(''wifiDetails'', Obj [(''ssid'', Str n)]),
              (''signalStrength'', Num (real_of_int l)),
              (''location'',
                 Obj [(''latitude'', Num (latitude (coords loc))),
                      (''longitude'', Num (longitude (coords loc)))]),
              (''timestamp'', Str stamp)]"
  using assms
  by (auto simp: truthy_string_iff truthy_number_iff save_record_def
      wifiDetails_json_def number_json_def)

subsection \<open>Frame facts of the handlers\<close>

lemma fetchLocation_cases:
  "(\<exists>loc. position_response env = Inr loc
       \<and> fetchLocation env s = (s\<lparr>location := Some loc\<rparr>, [Call GetCurrentPosition]))
   \<or> (\<exists>e. position_response env = Inl e
       \<and> fetchLocation env s =
           (s, [Call GetCurrentPosition, ConsoleError ''Error fetching location:'' e,
                ToastShow ''Error fetching location'']))"
  by (cases "position_response env") (simp_all add: fetchLocation_def)

lemma fetchLocation_fields:
  "wifiDetails (fst (fetchLocation env s)) = wifiDetails s"
  "signalStrength (fst (fetchLocation env s)) = signalStrength s"
  "savedData (fst (fetchLocation env s)) = savedData s"
  "availableNetworks (fst (fetchLocation env s)) = availableNetworks s"
  by (cases "position_response env"; simp add: fetchLocation_def)+

lemma fetchLocation_trace:
  "Call c \<in> set (snd (fetchLocation env s)) \<Longrightarrow> c = GetCurrentPosition"
  by (cases "position_response env") (auto simp: fetchLocation_def)

lemma fetchLocation_writes [simp]: "writes (snd (fetchLocation env s)) = []"
  by (cases "position_response env") (simp_all add: fetchLocation_def)

lemma fetchNetworkInfo_unfold:
  "fetchNetworkInfo env s =
     (if snd (snd (fetchNetworkInfo_try env s)) \<noteq> None \<and> toast_response env \<noteq> None
      then (fst (fetchNetworkInfo_try env s),
            fst (snd (fetchNetworkInfo_try env s))
              @ network_catch (snd (snd (fetchNetworkInfo_try env s))))
      else (fst (fetchLocation env (fst (fetchNetworkInfo_try env s))),
            fst (snd (fetchNetworkInfo_try env s))
              @ network_catch (snd (snd (fetchNetworkInfo_try env s)))
              @ snd (fetchLocation env (fst (fetchNetworkInfo_try env s)))))"
  by (simp add: fetchNetworkInfo_def case_prod_beta)

lemma fetchNetworkInfo_try_ssid_failed:
  "ssid_response env = Inl e \<Longrightarrow>
   fetchNetworkInfo_try env s = (s, [Call GetCurrentWifiSSID], Some e)"
  by (simp add: fetchNetworkInfo_try_def)

lemma fetchNetworkInfo_try_ssid:
  "ssid_response env = Inr n \<Longrightarrow>
   ssid (wifiDetails (fst (fetchNetworkInfo_try env s))) = Some n"
  by (simp add: fetchNetworkInfo_try_def Let_def split: sum.splits)

lemma fetchNetworkInfo_try_not_connected:
  assumes "ssid_response env = Inr n" "connection_response env = Inr False"
  shows "fetchNetworkInfo_try env s =
     (s\<lparr>wifiDetails := (wifiDetails s)\<lparr>ssid := Some n\<rparr>\<rparr>,
      [Call GetCurrentWifiSSID, Call ConnectionStatus], None)"
  using assms by (simp add: fetchNetworkInfo_try_def)

lemma fetchNetworkInfo_try_asks_connection:
  "Call ConnectionStatus \<in> set (fst (snd (fetchNetworkInfo_try env s))) \<Longrightarrow>
   \<exists>n. ssid_response env = Inr n"
  by (cases "ssid_response env") (simp_all add: fetchNetworkInfo_try_def)

lemma network_catch_calls [simp]: "Call c \<notin> set (network_catch err)"
  by (cases err) (simp_all add: network_catch_def)

lemma fetchNetworkInfo_try_fields:
  "location (fst (fetchNetworkInfo_try env s)) = location s"
  "savedData (fst (fetchNetworkInfo_try env s)) = savedData s"
  "availableNetworks (fst (fetchNetworkInfo_try env s)) = availableNetworks s"
  by (simp_all add: fetchNetworkInfo_try_def Let_def split: sum.splits)

lemma fetchNetworkInfo_try_provenance:
  "ssid (wifiDetails (fst (fetchNetworkInfo_try env s))) = Some n \<Longrightarrow>
     ssid_response env = Inr n \<or> ssid (wifiDetails s) = Some n"
  "signalStrength (fst (fetchNetworkInfo_try env s)) = Some l \<Longrightarrow>
     (signal_response env = Inr l \<and> connection_response env = Inr True
        \<and> (\<exists>m. ssid_response env = Inr m))
     \<or> signalStrength s = Some l"
  by (auto simp: fetchNetworkInfo_try_def Let_def split: sum.splits if_splits)

lemma fetchNetworkInfo_fields:
  "wifiDetails (fst (fetchNetworkInfo env s)) = wifiDetails (fst (fetchNetworkInfo_try env s))"
  "signalStrength (fst (fetchNetworkInfo env s))
     = signalStrength (fst (fetchNetworkInfo_try env s))"
  "savedData (fst (fetchNetworkInfo env s)) = savedData s"
  "availableNetworks (fst (fetchNetworkInfo env s)) = availableNetworks s"
  by (simp_all add: fetchNetworkInfo_unfold fetchLocation_fields fetchNetworkInfo_try_fields)

lemma fetchNetworkInfo_location:
  "location (fst (fetchNetworkInfo env s)) = Some p \<Longrightarrow>
   position_response env = Inr p \<or> location s = Some p"
  using fetchLocation_cases [of env "fst (fetchNetworkInfo_try env s)"]
  by (auto simp: fetchNetworkInfo_unfold fetchNetworkInfo_try_fields split: if_splits)

lemma fetchNetworkInfo_calls:
  "Call c \<in> set (snd (fetchNetworkInfo env s)) \<Longrightarrow>
   Call c \<in> set (fst (snd (fetchNetworkInfo_try env s))) \<or> c = GetCurrentPosition"
  using fetchLocation_trace [of c env "fst (fetchNetworkInfo_try env s)"]
  by (auto simp: fetchNetworkInfo_unfold split: if_splits)

lemma fetchNetworkInfo_no_error:
  "snd (snd (fetchNetworkInfo_try env s)) = None \<or> toast_response env = None \<Longrightarrow>
   fetchNetworkInfo env s =
     (fst (fetchLocation env (fst (fetchNetworkInfo_try env s))),
      fst (snd (fetchNetworkInfo_try env s))
        @ network_catch (snd (snd (fetchNetworkInfo_try env s)))
        @ snd (fetchLocation env (fst (fetchNetworkInfo_try env s))))"
  by (auto simp: fetchNetworkInfo_unfold)

lemma requestPermissions_granted:
  "permission_response env = Inr ''granted'' \<Longrightarrow>
   requestPermissions env s =
     (fst (fetchNetworkInfo env s),
      Call RequestForegroundPermissions # snd (fetchNetworkInfo env s))"
  by (simp add: requestPermissions_def case_prod_beta)

lemma requestPermissions_not_granted:
  "permission_response env \<noteq> Inr ''granted'' \<Longrightarrow>
   fst (requestPermissions env s) = s
   \<and> (\<forall>c. Call c \<in> set (snd (requestPermissions env s))
          \<longrightarrow> c = RequestForegroundPermissions)"
  by (cases "permission_response env") (auto simp: requestPermissions_def)

lemma requestPermissions_fields:
  "savedData (fst (requestPermissions env s)) = savedData s"
  "availableNetworks (fst (requestPermissions env s)) = availableNetworks s"
  by (cases "permission_response env";
      simp add: requestPermissions_def case_prod_beta fetchNetworkInfo_fields)+

lemma fetchAvailableNetworks_fields:
  "wifiDetails (fst (fetchAvailableNetworks env s)) = wifiDetails s"
  "signalStrength (fst (fetchAvailableNetworks env s)) = signalStrength s"
  "location (fst (fetchAvailableNetworks env s)) = location s"
  "savedData (fst (fetchAvailableNetworks env s)) = savedData s"
  by (cases "wifi_list_response env"; simp add: fetchAvailableNetworks_def)+

lemma fetchAvailableNetworks_trace:
  "Call c \<in> set (snd (fetchAvailableNetworks env s)) \<longleftrightarrow> c = LoadWifiList"
  by (cases "wifi_list_response env") (auto simp: fetchAvailableNetworks_def)

lemma fetchSavedData_trace:
  "Call c \<in> set (snd (fetchSavedData env st s)) \<longleftrightarrow> c = GetDocs ''networkDetails''"
  by (cases "getDocs_response env") (auto simp: fetchSavedData_ok fetchSavedData_fail)

lemma useEffect_mount_unfold:
  "useEffect_mount env st s =
     (fst (fetchAvailableNetworks env
             (fst (fetchSavedData env st (fst (requestPermissions env s))))),
      \<lparr>permission_chain = snd (requestPermissions env s),
       saved_chain = snd (fetchSavedData env st (fst (requestPermissions env s))),
       networks_chain = snd (fetchAvailableNetworks env
             (fst (fetchSavedData env st (fst (requestPermissions env s)))))\<rparr>)"
  by (simp add: useEffect_mount_def case_prod_beta)

lemma useEffect_mount_fields:
  "wifiDetails (fst (useEffect_mount env st s)) = wifiDetails (fst (requestPermissions env s))"
  "signalStrength (fst (useEffect_mount env st s)) = signalStrength (fst (requestPermissions env s))"
  "location (fst (useEffect_mount env st s)) = location (fst (requestPermissions env s))"
  by (simp_all add: useEffect_mount_unfold fetchAvailableNetworks_fields fetchSavedData_fields)

lemma fetchSavedData_update:
  "fst (fetchSavedData env st s) =
     s\<lparr>savedData := (case getDocs_response env of None \<Rightarrow> st | Some e \<Rightarrow> savedData s)\<rparr>"
  by (cases "getDocs_response env") (simp_all add: fetchSavedData_ok fetchSavedData_fail)

lemma fetchAvailableNetworks_update:
  "fst (fetchAvailableNetworks env s) =
     s\<lparr>availableNetworks :=
         (case wifi_list_response env of Inr ns \<Rightarrow> ns | Inl e \<Rightarrow> availableNetworks s)\<rparr>"
  by (cases "wifi_list_response env") (simp_all add: fetchAvailableNetworks_def)

lemma requestPermissions_frame:
  "fst (requestPermissions env (s\<lparr>savedData := ds\<rparr>))
     = (fst (requestPermissions env s))\<lparr>savedData := ds\<rparr>"
  "fst (requestPermissions env (s\<lparr>availableNetworks := ns\<rparr>))
     = (fst (requestPermissions env s))\<lparr>availableNetworks := ns\<rparr>"
  by (simp_all add: requestPermissions_def fetchNetworkInfo_unfold fetchNetworkInfo_try_def
      fetchLocation_def Let_def case_prod_beta split: sum.splits)

lemma mount_chains_commute:
  "fst (useEffect_mount env st s) =
     fst (requestPermissions env (fst (fetchAvailableNetworks env (fst (fetchSavedData env st s)))))"
  "fst (useEffect_mount env st s) =
     fst (fetchSavedData env st (fst (fetchAvailableNetworks env (fst (requestPermissions env s)))))"
  by (simp_all add: useEffect_mount_unfold fetchSavedData_update fetchAvailableNetworks_update
      requestPermissions_frame requestPermissions_fields split: sum.splits option.splits)

lemma saveData_store_changed:
  assumes "fst (snd (saveData env st s)) \<noteq> st"
  shows "truthy_string (ssid (wifiDetails s)) \<and> truthy_number (signalStrength s)
     \<and> (\<exists>loc. location s = Some loc) \<and> addDoc_response env = None"
proof -
  have t: "truthy_string (ssid (wifiDetails s)) \<and> truthy_number (signalStrength s)
        \<and> truthy_object (location s)"
  proof (rule ccontr)
    assume "\<not> ?thesis"
    from saveData_rejected [OF this, of env st] assms show False
      by simp
  qed
  then obtain loc where loc: "location s = Some loc"
    by (auto simp: truthy_object_iff)
  have "addDoc_response env = None"
  proof (cases "addDoc_response env")
    case (Some e)
    with t loc assms show ?thesis
      by (simp add: saveData_write_failed)
  qed simp
  with t loc show ?thesis
    by blast
qed

lemma saveData_store_appended:
  assumes "truthy_string (ssid (wifiDetails s))" "truthy_number (signalStrength s)"
    and "location s = Some loc" "addDoc_response env = None"
  shows "fst (snd (saveData env st s)) =
     st @ [save_record (wifiDetails s) (signalStrength s) loc (toISOString env (date_now env))]"
  using assms
  by (cases "toast_response env") (simp_all add: saveData_written saveData_toast_threw)

lemma saveData_demo:
  "saveData demo_env [] demo_state =
     (demo_state\<lparr>savedData := [demo_record]\<rparr>, [demo_record],
      [Call (AddDoc ''networkDetails'' demo_record), ToastShow ''Data saved successfully!'',
       Call (GetDocs ''networkDetails'')])"
proof -
  have t: "truthy_string (ssid (wifiDetails demo_state))" "truthy_number (signalStrength demo_state)"
    by (simp_all add: demo_state_def truthy_string_def truthy_number_def)
  have loc: "location demo_state = Some demo_location"
    by (simp add: demo_state_def)
  have ok: "addDoc_response demo_env = None" "getDocs_response demo_env = None"
      "toast_response demo_env = None"
    by (simp_all add: demo_env_def)
  have d: "demo_record = save_record (wifiDetails demo_state) (signalStrength demo_state)
      demo_location (toISOString demo_env (date_now demo_env))"
    by (simp add: demo_record_def save_record_def wifiDetails_json_def number_json_def
        demo_state_def demo_location_def demo_env_def)
  from saveData_written [OF t loc ok(1) d ok(3), of "[]"] show ?thesis
    by (simp add: fetchSavedData_ok [OF ok(2)])
qed

lemma save_record_timestamp [simp]:
  "field (save_record w sig loc stamp) ''timestamp'' = Some (Str stamp)"
  by (simp add: save_record_def)

lemma saveData_writes:
  "writes (snd (snd (saveData env st s))) = []
   \<or> (\<exists>loc. location s = Some loc
        \<and> writes (snd (snd (saveData env st s)))
            = [save_record (wifiDetails s) (signalStrength s) loc
                 (toISOString env (date_now env))])"
proof (cases "truthy_string (ssid (wifiDetails s)) \<and> truthy_number (signalStrength s)
        \<and> truthy_object (location s)")
  case True
  then obtain loc where loc: "location s = Some loc"
    by (auto simp: truthy_object_iff)
  show ?thesis
  proof (cases "addDoc_response env")
    case None
    with True loc show ?thesis
      by (cases "toast_response env") (simp_all add: saveData_written saveData_toast_threw)
  next
    case (Some e)
    with True loc show ?thesis
      by (simp add: saveData_write_failed)
  qed
next
  case False
  then show ?thesis
    by (simp add: saveData_rejected incomplete_toast_def)
qed

lemma collection_ignores_clock:
  "fetchLocation (env\<lparr>date_now := t0, toISOString := f\<rparr>) s = fetchLocation env s"
  "fetchNetworkInfo_try (env\<lparr>date_now := t0, toISOString := f\<rparr>) s
     = fetchNetworkInfo_try env s"
  "fetchSavedData (env\<lparr>date_now := t0, toISOString := f\<rparr>) st s = fetchSavedData env st s"
  "fetchAvailableNetworks (env\<lparr>date_now := t0, toISOString := f\<rparr>) s
     = fetchAvailableNetworks env s"
  by (simp_all add: fetchLocation_def fetchNetworkInfo_try_def fetchSavedData_def
      fetchAvailableNetworks_def Let_def cong: sum.case_cong if_cong)

lemma fetchNetworkInfo_ignores_clock:
  "fetchNetworkInfo (env\<lparr>date_now := t0, toISOString := f\<rparr>) s = fetchNetworkInfo env s"
  by (simp add: fetchNetworkInfo_unfold collection_ignores_clock)

lemma requestPermissions_ignores_clock:
  "requestPermissions (env\<lparr>date_now := t0, toISOString := f\<rparr>) s = requestPermissions env s"
  by (simp add: requestPermissions_def fetchNetworkInfo_ignores_clock
      cong: sum.case_cong if_cong)

lemma App_mount_clock:
  "App_mount (env\<lparr>date_now := t0, toISOString := f\<rparr>) st = App_mount env st"
  by (simp add: App_mount_def useEffect_mount_def requestPermissions_ignores_clock
      collection_ignores_clock)

lemma requestPermissions_provenance:
  "ssid (wifiDetails (fst (requestPermissions env s))) = Some n \<Longrightarrow>
     (permission_response env = Inr ''granted'' \<and> ssid_response env = Inr n)
     \<or> ssid (wifiDetails s) = Some n"
  "signalStrength (fst (requestPermissions env s)) = Some l \<Longrightarrow>
     (permission_response env = Inr ''granted'' \<and> signal_response env = Inr l)
     \<or> signalStrength s = Some l"
  "location (fst (requestPermissions env s)) = Some p \<Longrightarrow>
     (permission_response env = Inr ''granted'' \<and> position_response env = Inr p)
     \<or> location s = Some p"
proof -
  show "ssid (wifiDetails (fst (requestPermissions env s))) = Some n \<Longrightarrow>
     (permission_response env = Inr ''granted'' \<and> ssid_response env = Inr n)
     \<or> ssid (wifiDetails s) = Some n"
    using fetchNetworkInfo_try_provenance(1) [of env s n]
    by (cases "permission_response env = Inr ''granted''")
      (auto simp: requestPermissions_granted requestPermissions_not_granted
        fetchNetworkInfo_fields)
  show "signalStrength (fst (requestPermissions env s)) = Some l \<Longrightarrow>
     (permission_response env = Inr ''granted'' \<and> signal_response env = Inr l)
     \<or> signalStrength s = Some l"
    using fetchNetworkInfo_try_provenance(2) [of env s l]
    by (cases "permission_response env = Inr ''granted''")
      (auto simp: requestPermissions_granted requestPermissions_not_granted
        fetchNetworkInfo_fields)
  show "location (fst (requestPermissions env s)) = Some p \<Longrightarrow>
     (permission_response env = Inr ''granted'' \<and> position_response env = Inr p)
     \<or> location s = Some p"
    using fetchNetworkInfo_location [of env s p]
    by (cases "permission_response env = Inr ''granted''")
      (auto simp: requestPermissions_granted requestPermissions_not_granted)
qed

section \<open>The claims\<close>

text \<open>
  C1 (as amended). \<open>saveData\<close> hands a document to \<open>addDoc\<close> exactly when the network
  identifier is a non-empty string, the signal level is a non-zero number and the
  position is there, which is what the guard's negations test. When one of the three
  is absent the handler shows the "please ensure all data" toast and stops: no
  \<open>addDoc\<close> call, component state and collection unchanged.
\<close>

theorem saveData_writes_iff_truthy:
  "(writes (snd (snd (saveData env st s))) \<noteq> []
      \<longleftrightarrow> (\<exists>n l p. ssid (wifiDetails s) = Some n \<and> n \<noteq> [] \<and> signalStrength s = Some l \<and> l \<noteq> 0
                    \<and> location s = Some p))
   \<and> (ssid (wifiDetails s) = None \<or> signalStrength s = None \<or> location s = None
        \<longrightarrow> saveData env st s = (s, st, incomplete_toast))"
proof (cases "truthy_string (ssid (wifiDetails s)) \<and> truthy_number (signalStrength s)
        \<and> truthy_object (location s)")
  case True
  then obtain p where p: "location s = Some p"
    by (auto simp: truthy_object_iff)
  have "writes (snd (snd (saveData env st s))) \<noteq> []"
  proof (cases "addDoc_response env")
    case None
    with True p show ?thesis
      by (cases "toast_response env") (simp_all add: saveData_written saveData_toast_threw)
  next
    case (Some e)
    with True p show ?thesis
      by (simp add: saveData_write_failed)
  qed
  with True p show ?thesis
    by (auto simp: truthy_string_iff truthy_number_iff)
next
  case False
  then have "saveData env st s = (s, st, incomplete_toast)"
    by (rule saveData_rejected)
  with False show ?thesis
    by (auto simp: incomplete_toast_def truthy_string_iff truthy_number_iff truthy_object_iff)
qed

theorem saveData_writes_iff_truthy_witness:
  "writes (snd (snd (saveData demo_env [] demo_state))) \<noteq> []
   \<and> location (initial_state :: unit app_state) = None
   \<and> saveData demo_env [] initial_state = (initial_state, [], incomplete_toast)"
  using saveData_writes_iff_truthy [of demo_env "[]" demo_state]
    saveData_writes_iff_truthy [of demo_env "[]" initial_state]
  by (simp add: demo_state_def initial_state_def)

text \<open>
  The claim as written asks for a write whenever the three fields are present. With a
  signal level of 0 all three are present and nothing is written.
\<close>

theorem saveData_presence_counterexample:
  "\<not> (writes (snd (snd (saveData demo_env [] (demo_state\<lparr>signalStrength := Some 0\<rparr>)))) \<noteq> []
        \<longleftrightarrow> ssid (wifiDetails (demo_state\<lparr>signalStrength := Some 0\<rparr>)) \<noteq> None
            \<and> signalStrength (demo_state\<lparr>signalStrength := Some 0\<rparr>) \<noteq> None
            \<and> location (demo_state\<lparr>signalStrength := Some 0\<rparr>) \<noteq> None)"
  by (simp add: saveData_def truthy_number_def demo_state_def)

text \<open>
  C2 (as amended). In a run of the mount effect no query for a collected field
  (identifier, connection status, signal level, position) is made unless the
  permission request of that run answered \<open>granted\<close>, and each such query comes
  after the request in the permission chain. When the answer is anything else the
  permission chain makes no further call and leaves the three fields alone. The
  listing of nearby networks is started by the effect itself and is made whatever
  the permission answer is.
\<close>

theorem field_queries_gated_by_permission:
  "(field_query c \<and> Call c \<in> mount_events (snd (useEffect_mount env st s))
      \<longrightarrow> permission_response env = Inr ''granted''
        \<and> (\<exists>rest. permission_chain (snd (useEffect_mount env st s))
                     = Call RequestForegroundPermissions # rest
                 \<and> Call c \<in> set rest))
   \<and> (permission_response env \<noteq> Inr ''granted''
      \<longrightarrow> (\<forall>q. Call q \<in> set (permission_chain (snd (useEffect_mount env st s)))
                \<longrightarrow> q = RequestForegroundPermissions)
        \<and> wifiDetails (fst (useEffect_mount env st s)) = wifiDetails s
        \<and> signalStrength (fst (useEffect_mount env st s)) = signalStrength s
        \<and> location (fst (useEffect_mount env st s)) = location s)
   \<and> Call LoadWifiList \<in> set (networks_chain (snd (useEffect_mount env st s)))"
proof (intro conjI impI)
  assume a: "field_query c \<and> Call c \<in> mount_events (snd (useEffect_mount env st s))"
  then have q: "c \<noteq> RequestForegroundPermissions" "c \<noteq> LoadWifiList"
      "c \<noteq> GetDocs ''networkDetails''"
    by (auto simp: field_query_def)
  with a have c: "Call c \<in> set (snd (requestPermissions env s))"
    by (auto simp: mount_events_def useEffect_mount_unfold fetchAvailableNetworks_trace
        fetchSavedData_trace)
  show g: "permission_response env = Inr ''granted''"
  proof (rule ccontr)
    assume "permission_response env \<noteq> Inr ''granted''"
    from requestPermissions_not_granted [OF this, of s] c q show False
      by blast
  qed
  from c q show "\<exists>rest. permission_chain (snd (useEffect_mount env st s))
                     = Call RequestForegroundPermissions # rest \<and> Call c \<in> set rest"
    by (simp add: useEffect_mount_unfold requestPermissions_granted [OF g])
next
  assume n: "permission_response env \<noteq> Inr ''granted''"
  from requestPermissions_not_granted [OF n, of s]
  show "\<forall>q. Call q \<in> set (permission_chain (snd (useEffect_mount env st s)))
                \<longrightarrow> q = RequestForegroundPermissions"
    and "wifiDetails (fst (useEffect_mount env st s)) = wifiDetails s"
    and "signalStrength (fst (useEffect_mount env st s)) = signalStrength s"
    and "location (fst (useEffect_mount env st s)) = location s"
    by (simp_all add: useEffect_mount_fields) (simp add: useEffect_mount_unfold)
next
  show "Call LoadWifiList \<in> set (networks_chain (snd (useEffect_mount env st s)))"
    by (simp add: useEffect_mount_unfold fetchAvailableNetworks_trace)
qed

theorem field_queries_gated_by_permission_witness:
  "field_query GetCurrentPosition
   \<and> Call GetCurrentPosition \<in> mount_events (snd (useEffect_mount demo_env [] initial_state))
   \<and> permission_response demo_env = Inr ''granted''
   \<and> (\<exists>rest. permission_chain (snd (useEffect_mount demo_env [] initial_state))
                 = Call RequestForegroundPermissions # rest
             \<and> Call GetCurrentPosition \<in> set rest)
   \<and> permission_response (demo_env\<lparr>permission_response := Inr ''denied''\<rparr>) \<noteq> Inr ''granted''
   \<and> location (fst (useEffect_mount (demo_env\<lparr>permission_response := Inr ''denied''\<rparr>) []
                     initial_state)) = None"
proof -
  have q: "field_query GetCurrentPosition"
    by (simp add: field_query_def)
  have g: "permission_response demo_env = Inr ''granted''"
    by (simp add: demo_env_def)
  have p: "position_response demo_env = Inr demo_location"
    by (simp add: demo_env_def)
  have tn: "toast_response demo_env = None"
    by (simp add: demo_env_def)
  have "Call GetCurrentPosition \<in> set (snd (fetchLocation demo_env s))" for s
    by (simp add: fetchLocation_def p)
  then have m: "Call GetCurrentPosition
      \<in> mount_events (snd (useEffect_mount demo_env [] initial_state))"
    by (simp add: mount_events_def useEffect_mount_unfold requestPermissions_granted [OF g]
        fetchNetworkInfo_no_error tn)
  from field_queries_gated_by_permission [of GetCurrentPosition demo_env "[]" initial_state] q m
  have r: "\<exists>rest. permission_chain (snd (useEffect_mount demo_env [] initial_state))
                 = Call RequestForegroundPermissions # rest
             \<and> Call GetCurrentPosition \<in> set rest"
    by blast
  have d: "permission_response (demo_env\<lparr>permission_response := Inr ''denied''\<rparr>)
      \<noteq> Inr ''granted''"
    by simp
  have i: "location (initial_state :: unit app_state) = None"
    by (simp add: initial_state_def)
  from field_queries_gated_by_permission
      [of GetCurrentPosition "demo_env\<lparr>permission_response := Inr ''denied''\<rparr>" "[]" initial_state]
    d i
  have "location (fst (useEffect_mount (demo_env\<lparr>permission_response := Inr ''denied''\<rparr>) []
                     initial_state)) = None"
    by metis
  with q g m r d show ?thesis
    by blast
qed

text \<open>
  The claim as written puts the nearby-network listing behind the permission too. On
  a denied request the listing is still called.
\<close>

theorem listing_not_gated_counterexample:
  "permission_response (demo_env\<lparr>permission_response := Inr ''denied''\<rparr>) = Inr ''denied''
   \<and> Call LoadWifiList
       \<in> mount_events (snd (App_mount (demo_env\<lparr>permission_response := Inr ''denied''\<rparr>) []))"
  by (simp add: App_mount_def mount_events_def useEffect_mount_unfold
      fetchAvailableNetworks_def demo_env_def)

text \<open>
  C3 (as amended). Once the identifier query has succeeded, the identifier stays in
  the state however the connection-status and signal-level queries end, so a failed
  signal-level query does not take it away. A failed identifier query ends the
  \<open>try\<close> block: the connection status and the signal level are not queried in that
  run, and the identifier and signal level held before are left as they were.
\<close>

theorem network_failure_isolation:
  "(ssid_response env = Inr n
      \<longrightarrow> ssid (wifiDetails (fst (fetchNetworkInfo env s))) = Some n)
   \<and> (ssid_response env = Inl e
      \<longrightarrow> wifiDetails (fst (fetchNetworkInfo env s)) = wifiDetails s
        \<and> signalStrength (fst (fetchNetworkInfo env s)) = signalStrength s
        \<and> Call ConnectionStatus \<notin> set (snd (fetchNetworkInfo env s))
        \<and> Call GetCurrentSignalStrength \<notin> set (snd (fetchNetworkInfo env s)))"
proof (intro conjI impI)
  assume "ssid_response env = Inr n"
  then show "ssid (wifiDetails (fst (fetchNetworkInfo env s))) = Some n"
    by (simp add: fetchNetworkInfo_unfold fetchLocation_fields fetchNetworkInfo_try_ssid)
next
  assume f: "ssid_response env = Inl e"
  show "wifiDetails (fst (fetchNetworkInfo env s)) = wifiDetails s"
    and "signalStrength (fst (fetchNetworkInfo env s)) = signalStrength s"
    by (simp_all add: fetchNetworkInfo_unfold fetchLocation_fields
        fetchNetworkInfo_try_ssid_failed [OF f])
  show "Call ConnectionStatus \<notin> set (snd (fetchNetworkInfo env s))"
    and "Call GetCurrentSignalStrength \<notin> set (snd (fetchNetworkInfo env s))"
    using fetchLocation_trace [of _ env s]
    by (auto simp: fetchNetworkInfo_unfold fetchNetworkInfo_try_ssid_failed [OF f])
qed

theorem network_failure_isolation_witness:
  "ssid_response (demo_env\<lparr>signal_response := Inl ''Unavailable''\<rparr>) = Inr ''NET1''
   \<and> ssid (wifiDetails (fst (fetchNetworkInfo
         (demo_env\<lparr>signal_response := Inl ''Unavailable''\<rparr>) initial_state))) = Some ''NET1''
   \<and> ssid_response (demo_env\<lparr>ssid_response := Inl ''Unavailable''\<rparr>) = Inl ''Unavailable''
   \<and> signalStrength (fst (fetchNetworkInfo
         (demo_env\<lparr>ssid_response := Inl ''Unavailable''\<rparr>) demo_state)) = Some (- 54)"
proof -
  have a: "ssid_response (demo_env\<lparr>signal_response := Inl ''Unavailable''\<rparr>) = Inr ''NET1''"
    by (simp add: demo_env_def)
  have b: "ssid_response (demo_env\<lparr>ssid_response := Inl ''Unavailable''\<rparr>) = Inl ''Unavailable''"
    by simp
  have c: "signalStrength demo_state = Some (- 54)"
    by (simp add: demo_state_def)
  from a network_failure_isolation
      [of "demo_env\<lparr>signal_response := Inl ''Unavailable''\<rparr>" "''NET1''" initial_state]
  have 1: "ssid (wifiDetails (fst (fetchNetworkInfo
         (demo_env\<lparr>signal_response := Inl ''Unavailable''\<rparr>) initial_state))) = Some ''NET1''"
    by blast
  from b c network_failure_isolation
      [of "demo_env\<lparr>ssid_response := Inl ''Unavailable''\<rparr>" _ demo_state "''Unavailable''"]
  have 2: "signalStrength (fst (fetchNetworkInfo
         (demo_env\<lparr>ssid_response := Inl ''Unavailable''\<rparr>) demo_state)) = Some (- 54)"
    by metis
  from a b 1 2 show ?thesis
    by blast
qed

text \<open>
  The claim as written says a failed identifier query does not prevent a successful
  signal-level retrieval. With the identifier query failing and a provider that would
  answer -54, the signal level is never asked for and stays absent.
\<close>

theorem ssid_failure_blocks_signal_counterexample:
  "signal_response (demo_env\<lparr>ssid_response := Inl ''Unavailable''\<rparr>) = Inr (- 54)
   \<and> connection_response (demo_env\<lparr>ssid_response := Inl ''Unavailable''\<rparr>) = Inr True
   \<and> signalStrength (fst (fetchNetworkInfo (demo_env\<lparr>ssid_response := Inl ''Unavailable''\<rparr>)
         initial_state)) = None
   \<and> snd (fetchNetworkInfo (demo_env\<lparr>ssid_response := Inl ''Unavailable''\<rparr>) initial_state)
       = [Call GetCurrentWifiSSID,
          ConsoleError ''Error fetching network info:'' ''Unavailable'',
          ToastShow ''Error fetching network info'',
          Call GetCurrentPosition]"
  by (simp add: fetchNetworkInfo_unfold fetchNetworkInfo_try_def fetchLocation_def
      network_catch_def initial_state_def demo_env_def)

text \<open>
  C4 (as amended). Every document a successful \<open>saveData\<close> appends to the collection
  has the keys \<open>wifiDetails\<close>, \<open>signalStrength\<close>, \<open>location\<close>, \<open>timestamp\<close>, in this order:
  \<open>wifiDetails\<close> is the object holding \<open>ssid\<close>, \<open>signalStrength\<close> the number,
  \<open>location\<close> an object with \<open>latitude\<close> and \<open>longitude\<close>, and \<open>timestamp\<close> the
  string \<open>toISOString\<close> returned.
\<close>

theorem saveData_record_shape:
  assumes "saveData env st s = (s', st', t)" and "st' \<noteq> st"
  shows "\<exists>n l loc. ssid (wifiDetails s) = Some n \<and> signalStrength s = Some l
     \<and> location s = Some loc
     \<and> st' = st @
         [Obj [(''wifiDetails'', Obj [(''ssid'', Str n)]),
               (''signalStrength'', Num (real_of_int l)),
               (''location'',
                  Obj [(''latitude'', Num (latitude (coords loc))),
                       (''longitude'', Num (longitude (coords loc)))]),
               (''timestamp'', Str (toISOString env (date_now env)))]]"
proof -
  from assms have "fst (snd (saveData env st s)) \<noteq> st"
    by simp
  from saveData_store_changed [OF this]
  obtain loc where t: "truthy_string (ssid (wifiDetails s))" "truthy_number (signalStrength s)"
    and loc: "location s = Some loc" and ok: "addDoc_response env = None"
    by blast
  from saveData_store_appended [OF t loc ok, of st] assms
  have "st' = st @ [save_record (wifiDetails s) (signalStrength s) loc
                      (toISOString env (date_now env))]"
    by simp
  with save_record_truthy [OF t, of loc "toISOString env (date_now env)"] loc
  show ?thesis
    by auto
qed

theorem saveData_record_shape_witness:
  "saveData demo_env [] demo_state =
     (demo_state\<lparr>savedData := [demo_record]\<rparr>, [demo_record],
      [Call (AddDoc ''networkDetails'' demo_record), ToastShow ''Data saved successfully!'',
       Call (GetDocs ''networkDetails'')])
   \<and> [demo_record] \<noteq> []
   \<and> (\<exists>n l loc. ssid (wifiDetails demo_state) = Some n \<and> signalStrength demo_state = Some l
     \<and> location demo_state = Some loc
     \<and> [demo_record] = [] @
         [Obj [(''wifiDetails'', Obj [(''ssid'', Str n)]),
               (''signalStrength'', Num (real_of_int l)),
               (''location'',
                  Obj [(''latitude'', Num (latitude (coords loc))),
                       (''longitude'', Num (longitude (coords loc)))]),
               (''timestamp'', Str (toISOString demo_env (date_now demo_env)))]])"
  using saveData_record_shape [OF saveData_demo] saveData_demo
  by blast

text \<open>
  The claim as written names the keys \<open>networkId\<close>, \<open>signalLevel\<close>, \<open>position\<close> and
  \<open>capturedAt\<close>. The document written for a complete session has none of them.
\<close>

theorem saveData_record_keys_counterexample:
  "fst (snd (saveData demo_env [] demo_state)) = [demo_record]
   \<and> object_keys demo_record = [''wifiDetails'', ''signalStrength'', ''location'', ''timestamp'']
   \<and> object_keys demo_record \<noteq> [''networkId'', ''signalLevel'', ''position'', ''capturedAt'']
   \<and> field demo_record ''networkId'' = None"
  by (simp add: saveData_demo) (simp add: demo_record_def)

text \<open>
  C5. The timestamp of every document \<open>saveData\<close> hands to \<open>addDoc\<close> is the formatted
  clock reading of that \<open>saveData\<close> invocation, whatever the collected state is (the
  state does not occur on the right-hand side). The collection run started by the
  mount effect reads neither the clock nor the formatter, so nothing in the session
  it builds is a time stamp of the component's own.
\<close>

theorem saveData_timestamp_at_save:
  "(\<forall>d \<in> set (writes (snd (snd (saveData env st s)))).
       field d ''timestamp'' = Some (Str (toISOString env (date_now env))))
   \<and> App_mount (env0\<lparr>date_now := t0, toISOString := f\<rparr>) st0 = App_mount env0 st0"
  using saveData_writes [of env st s] by (auto simp: App_mount_clock)

theorem saveData_timestamp_at_save_witness:
  "demo_record \<in> set (writes (snd (snd (saveData demo_env [] demo_state))))
   \<and> field demo_record ''timestamp'' = Some (Str ''2023-11-14T22:13:20.000Z'')
   \<and> date_now demo_env = 1700000000000
   \<and> fst (App_mount (demo_env\<lparr>date_now := 0, toISOString := (\<lambda>t. [])\<rparr>) []) = demo_state"
proof -
  have m: "demo_record \<in> set (writes (snd (snd (saveData demo_env [] demo_state))))"
    by (simp add: saveData_demo)
  have c: "toISOString demo_env (date_now demo_env) = ''2023-11-14T22:13:20.000Z''"
      "date_now demo_env = 1700000000000"
    by (simp_all add: demo_env_def)
  have r: "fst (App_mount demo_env []) = demo_state"
    by (simp add: App_mount_def useEffect_mount_def requestPermissions_def fetchNetworkInfo_def
      fetchNetworkInfo_try_def fetchLocation_def fetchSavedData_def fetchAvailableNetworks_def
      store_listAll_def initial_state_def demo_env_def demo_state_def)
  from saveData_timestamp_at_save
      [where env = demo_env and st = "[]" and s = demo_state and ?env0.0 = demo_env
         and ?t0.0 = 0 and f = "\<lambda>t. []" and ?st0.0 = "[]"] m c r
  show ?thesis
    by auto
qed

text \<open>
  C6. When \<open>saveData\<close> attempts the write and the store rejects it, the component
  state (so the identifier, the signal level and the position) and the collection
  are what they were, the failure is logged and toasted, and a later \<open>saveData\<close>
  behaves exactly as it would have on the session before the failed attempt.
\<close>

theorem saveData_failed_write_keeps_session:
  assumes "writes (snd (snd (saveData env st s))) \<noteq> []" and "addDoc_response env = Some e"
  shows "fst (saveData env st s) = s
     \<and> fst (snd (saveData env st s)) = st
     \<and> (\<exists>d. snd (snd (saveData env st s)) =
            [Call (AddDoc ''networkDetails'' d),
             ConsoleError ''Error saving data to Firebase:'' e,
             ToastShow ''Error saving data to Firebase''])
     \<and> saveData env' st (fst (saveData env st s)) = saveData env' st s"
proof -
  have t: "truthy_string (ssid (wifiDetails s)) \<and> truthy_number (signalStrength s)
        \<and> truthy_object (location s)"
  proof (rule ccontr)
    assume "\<not> ?thesis"
    from saveData_rejected [OF this, of env st] assms(1) show False
      by (simp add: incomplete_toast_def)
  qed
  then obtain loc where loc: "location s = Some loc"
    by (auto simp: truthy_object_iff)
  from t loc assms(2) show ?thesis
    by (simp add: saveData_write_failed)
qed

theorem saveData_failed_write_keeps_session_witness:
  "writes (snd (snd (saveData (demo_env\<lparr>addDoc_response := Some ''Unreachable''\<rparr>) []
       demo_state))) \<noteq> []
   \<and> addDoc_response (demo_env\<lparr>addDoc_response := Some ''Unreachable''\<rparr>) = Some ''Unreachable''
   \<and> fst (saveData (demo_env\<lparr>addDoc_response := Some ''Unreachable''\<rparr>) [] demo_state)
       = demo_state
   \<and> fst (snd (saveData demo_env []
        (fst (saveData (demo_env\<lparr>addDoc_response := Some ''Unreachable''\<rparr>) [] demo_state))))
       = [demo_record]"
proof -
  let ?E = "demo_env\<lparr>addDoc_response := Some ''Unreachable''\<rparr>"
  have t: "truthy_string (ssid (wifiDetails demo_state))" "truthy_number (signalStrength demo_state)"
    by (simp_all add: demo_state_def truthy_string_def truthy_number_def)
  have loc: "location demo_state = Some demo_location"
    by (simp add: demo_state_def)
  have f: "addDoc_response ?E = Some ''Unreachable''"
    by simp
  have w: "writes (snd (snd (saveData ?E [] demo_state))) \<noteq> []"
    by (simp add: saveData_write_failed [OF t loc f])
  from saveData_failed_write_keeps_session [OF w f, of demo_env] w f
  show ?thesis
    by (simp add: saveData_demo)
qed

text \<open>
  C7. The collection pipeline is started by mounting the component, and by nothing
  else. A mount runs the effect on the \<open>useState\<close> defaults, in which identifier,
  signal level and position are all absent; so every one of the three fields found
  after the run was delivered by a provider in that very run, under a permission
  granted in that run.
\<close>

theorem App_mount_starts_empty:
  "App_mount env st = useEffect_mount env st initial_state
   \<and> ssid (wifiDetails (initial_state :: 'l app_state)) = None
   \<and> signalStrength (initial_state :: 'l app_state) = None
   \<and> location (initial_state :: 'l app_state) = None
   \<and> (\<forall>n. ssid (wifiDetails (fst (App_mount env st))) = Some n
          \<longrightarrow> permission_response env = Inr ''granted'' \<and> ssid_response env = Inr n)
   \<and> (\<forall>l. signalStrength (fst (App_mount env st)) = Some l
          \<longrightarrow> permission_response env = Inr ''granted'' \<and> signal_response env = Inr l)
   \<and> (\<forall>p. location (fst (App_mount env st)) = Some (p :: 'l location_scheme)
          \<longrightarrow> permission_response env = Inr ''granted'' \<and> position_response env = Inr p)"
proof -
  have i: "ssid (wifiDetails (initial_state :: 'l app_state)) = None"
      "signalStrength (initial_state :: 'l app_state) = None"
      "location (initial_state :: 'l app_state) = None"
    by (simp_all add: initial_state_def)
  show ?thesis
    using requestPermissions_provenance [of env initial_state] i
    by (auto simp: App_mount_def useEffect_mount_fields)
qed

theorem App_mount_starts_empty_witness:
  "ssid (wifiDetails (fst (App_mount (demo_env\<lparr>position_response := Inl ''Unavailable''\<rparr>) [])))
     = Some ''NET1''
   \<and> ssid_response (demo_env\<lparr>position_response := Inl ''Unavailable''\<rparr>) = Inr ''NET1''
   \<and> location (fst (App_mount (demo_env\<lparr>position_response := Inl ''Unavailable''\<rparr>) [])) = None"
proof -
  let ?E = "demo_env\<lparr>position_response := Inl ''Unavailable''\<rparr>"
  have g: "permission_response ?E = Inr ''granted''" and n: "ssid_response ?E = Inr ''NET1''"
    and p: "position_response ?E = Inl ''Unavailable''"
    by (simp_all add: demo_env_def)
  have a: "ssid (wifiDetails (fst (App_mount ?E []))) = Some ''NET1''"
    by (simp add: App_mount_def useEffect_mount_fields requestPermissions_granted [OF g]
        fetchNetworkInfo_unfold fetchLocation_fields fetchNetworkInfo_try_ssid [OF n])
  have "location (fst (App_mount ?E [])) \<noteq> Some q" for q
    using App_mount_starts_empty [of ?E "[]"] p by auto
  then have "location (fst (App_mount ?E [])) = None"
    by (cases "location (fst (App_mount ?E []))") auto
  with a n show ?thesis
    by blast
qed




text \<open>
  C9. Whenever the network identifier is the empty string or the signal level is
  zero, \<open>saveData\<close> shows the "please ensure all data" toast and does nothing else:
  nothing is handed to \<open>addDoc\<close>, and the component state and the collection are as
  they were. Both fields are present here; it is their falsiness that stops the
  save.
\<close>

theorem saveData_falsy_rejected:
  assumes "ssid (wifiDetails s) = Some [] \<or> signalStrength s = Some 0"
  shows "saveData env st s = (s, st, incomplete_toast)
     \<and> writes (snd (snd (saveData env st s))) = []"
proof -
  from assms
  have "\<not> (truthy_string (ssid (wifiDetails s)) \<and> truthy_number (signalStrength s)
            \<and> truthy_object (location s))"
    by (auto simp: truthy_string_def truthy_number_def)
  then have "saveData env st s = (s, st, incomplete_toast)"
    by (rule saveData_rejected)
  then show ?thesis
    by (simp add: incomplete_toast_def)
qed

theorem saveData_falsy_rejected_witness:
  "signalStrength (demo_state\<lparr>signalStrength := Some 0\<rparr>) = Some 0
   \<and> saveData demo_env [demo_record] (demo_state\<lparr>signalStrength := Some 0\<rparr>)
       = (demo_state\<lparr>signalStrength := Some 0\<rparr>, [demo_record], incomplete_toast)
   \<and> ssid (wifiDetails (demo_state\<lparr>wifiDetails := \<lparr>ssid = Some []\<rparr>\<rparr>)) = Some []
   \<and> writes (snd (snd (saveData demo_env []
         (demo_state\<lparr>wifiDetails := \<lparr>ssid = Some []\<rparr>\<rparr>)))) = []"
  using saveData_falsy_rejected [of "demo_state\<lparr>signalStrength := Some 0\<rparr>" demo_env "[demo_record]"]
    saveData_falsy_rejected [of "demo_state\<lparr>wifiDetails := \<lparr>ssid = Some []\<rparr>\<rparr>" demo_env "[]"]
  by (simp add: incomplete_toast_def)

text \<open>
  C10. In a run of \<open>fetchNetworkInfo\<close> where the connection status is queried and
  answers false, the signal level is not queried and keeps the value it had (absent,
  from the mount), no network error is logged or toasted, and the identifier
  delivered in that run is in the state; the run goes on to the position query.
\<close>

theorem not_connected_skips_signal:
  assumes "Call ConnectionStatus \<in> set (snd (fetchNetworkInfo env s))"
    and "connection_response env = Inr False"
  shows "Call GetCurrentSignalStrength \<notin> set (snd (fetchNetworkInfo env s))
     \<and> signalStrength (fst (fetchNetworkInfo env s)) = signalStrength s
     \<and> ToastShow ''Error fetching network info'' \<notin> set (snd (fetchNetworkInfo env s))
     \<and> (\<forall>e. ConsoleError ''Error fetching network info:'' e
              \<notin> set (snd (fetchNetworkInfo env s)))
     \<and> (\<exists>n. ssid_response env = Inr n
            \<and> ssid (wifiDetails (fst (fetchNetworkInfo env s))) = Some n
            \<and> snd (fetchNetworkInfo env s) =
                [Call GetCurrentWifiSSID, Call ConnectionStatus]
                  @ snd (fetchLocation env (s\<lparr>wifiDetails := (wifiDetails s)\<lparr>ssid := Some n\<rparr>\<rparr>)))"
proof -
  from fetchNetworkInfo_calls [OF assms(1)]
  have "Call ConnectionStatus \<in> set (fst (snd (fetchNetworkInfo_try env s)))"
    by simp
  then obtain n where n: "ssid_response env = Inr n"
    using fetchNetworkInfo_try_asks_connection by blast
  note tr = fetchNetworkInfo_try_not_connected [OF n assms(2), of s]
  let ?s1 = "s\<lparr>wifiDetails := (wifiDetails s)\<lparr>ssid := Some n\<rparr>\<rparr>"
  have u: "fetchNetworkInfo env s =
      (fst (fetchLocation env ?s1),
       [Call GetCurrentWifiSSID, Call ConnectionStatus] @ snd (fetchLocation env ?s1))"
    by (simp add: fetchNetworkInfo_no_error tr network_catch_def)
  from fetchLocation_cases [of env ?s1]
  have l: "ToastShow ''Error fetching network info'' \<notin> set (snd (fetchLocation env ?s1))"
      "\<forall>e. ConsoleError ''Error fetching network info:'' e \<notin> set (snd (fetchLocation env ?s1))"
      "Call GetCurrentSignalStrength \<notin> set (snd (fetchLocation env ?s1))"
    by auto
  from n l show ?thesis
    by (simp add: u fetchLocation_fields)
qed

theorem not_connected_skips_signal_witness:
  "Call ConnectionStatus
     \<in> set (snd (fetchNetworkInfo (demo_env\<lparr>connection_response := Inr False\<rparr>) initial_state))
   \<and> connection_response (demo_env\<lparr>connection_response := Inr False\<rparr>) = Inr False
   \<and> signalStrength (fst (fetchNetworkInfo (demo_env\<lparr>connection_response := Inr False\<rparr>)
         initial_state)) = None
   \<and> ssid (wifiDetails (fst (fetchNetworkInfo (demo_env\<lparr>connection_response := Inr False\<rparr>)
         initial_state))) = Some ''NET1''"
proof -
  let ?E = "demo_env\<lparr>connection_response := Inr False\<rparr>"
  have n: "ssid_response ?E = Inr ''NET1''" and c: "connection_response ?E = Inr False"
    by (simp_all add: demo_env_def)
  have a: "Call ConnectionStatus \<in> set (snd (fetchNetworkInfo ?E initial_state))"
    by (simp add: fetchNetworkInfo_unfold fetchNetworkInfo_try_not_connected [OF n c])
  have i: "signalStrength (initial_state :: unit app_state) = None"
    by (simp add: initial_state_def)
  from not_connected_skips_signal [OF a c] n i a c show ?thesis
    by auto
qed

end
